theory Spec2Isabelle
  imports Complex_Main
begin

section \<open>The dataplicity agent's client: poll, sync and identity announcement\<close>

text \<open>
  A shallow embedding of \<^verbatim>\<open>src/dataplicity/client.py\<close> (class \<^verbatim>\<open>Client\<close>).
  Mutation of the instance is explicit state passing over the record \<open>client\<close>; every
  \<^verbatim>\<open>raise\<close> is a value \<open>Raised e\<close>; what the surroundings answer (the clock, the metadata
  collector, the disk probe, the server, the random generator) is read from the record
  \<open>env\<close>. A leading underscore of a Python name is written as the prefix \<open>p_\<close>
  (\<^verbatim>\<open>_sync\<close> is \<open>p_sync\<close>), since an Isabelle name cannot start with an underscore.
  Time stamps are idealised as real numbers.
\<close>

subsection \<open>Python values, exceptions and the log\<close>

text \<open>
  The exceptions the code names or can meet. \<^verbatim>\<open>SystemExit\<close> and \<^verbatim>\<open>KeyboardInterrupt\<close>
  derive from \<^verbatim>\<open>BaseException\<close> only; every other one is an \<^verbatim>\<open>Exception\<close>.
  Modelled from the spec: the classes of the module \<^verbatim>\<open>jsonrpc\<close> are not among the
  sources. Following sections 4.1 and 6 of the specification, the remote-call fault
  \<open>JSONRPCError method code message\<close> and the condition \<open>ServerUnreachableError\<close> are
  distinct, neither a subclass of the other; \<open>NotSentError\<close> and \<open>DuplicateNameError\<close>
  are the failures of a batch that section 4.1 names.
\<close>

datatype exn =
    SystemExit
  | KeyboardInterrupt
  | JSONRPCError string int string
  | ServerUnreachableError
  | NotSentError
  | DuplicateNameError string
  | KeyError string
  | AttributeError string
  | OtherError string

fun is_Exception :: "exn \<Rightarrow> bool" where
  "is_Exception SystemExit = False"
| "is_Exception KeyboardInterrupt = False"
| "is_Exception _ = True"

datatype pyval =
    PyNone
  | PyBool bool
  | PyInt int
  | PyFloat real
  | PyStr string
  | PyExn exn
  | PyObj string

text \<open>Python's truth value of an object, as \<^verbatim>\<open>not x\<close> and \<^verbatim>\<open>x or y\<close> read it.\<close>

fun truthy :: "pyval \<Rightarrow> bool" where
  "truthy PyNone = False"
| "truthy (PyBool b) = b"
| "truthy (PyInt i) = (i \<noteq> 0)"
| "truthy (PyFloat r) = (r \<noteq> 0)"
| "truthy (PyStr s) = (s \<noteq> [])"
| "truthy (PyExn e) = True"
| "truthy (PyObj n) = True"

definition py_or :: "pyval \<Rightarrow> pyval \<Rightarrow> pyval" where
  "py_or a b = (if truthy a then a else b)"

definition opt_str :: "string option \<Rightarrow> pyval" where
  "opt_str s = (case s of None \<Rightarrow> PyNone | Some x \<Rightarrow> PyStr x)"

datatype 'a outcome = Return 'a | Raised exn

datatype level = DEBUG | INFO | WARNING | ERROR

text \<open>A log record: severity, format string, arguments.\<close>

type_synonym log_record = "level \<times> string \<times> pyval list"

subsection \<open>The batch of remote calls\<close>

record call =
  result_name :: string
  rpc_method :: string
  args :: "(string \<times> pyval) list"

text \<open>What the server answers for one call, and what a result slot holds after the send.\<close>

datatype reply = Ok pyval | Err int string

datatype response = Unreachable | Replies "call \<Rightarrow> reply"

datatype slot = Result pyval | Fault string int string | TransportFault

record batch =
  calls :: "call list"
  abandoned :: bool
  sent :: bool
  results :: "(string \<times> slot) list"

subsection \<open>The client and its surroundings\<close>

text \<open>
  The fields of the instance that the modelled methods read or write, and four
  observations: the records of the module's logger \<^verbatim>\<open>log\<close>, the batches the transport
  has transmitted, the number of batches opened with \<^verbatim>\<open>self.remote.batch()\<close>, and the
  number of calls of \<^verbatim>\<open>close\<close>.
\<close>

record client =
  rpc_url :: string
  serial :: "string option"
  auth_token :: "string option"
  poll_rate_seconds :: real
  disk_poll_rate_seconds :: int
  next_disk_poll_time :: real
  p_sent_meta :: bool
  agent_log :: "log_record list"
  sent_batches :: "call list list"
  batches_opened :: nat
  close_calls :: nat

record disk_space =
  total :: int
  used :: int

text \<open>
  What one poll reads from outside the instance: the four readings of \<^verbatim>\<open>time.time()\<close>
  (in \<^verbatim>\<open>poll\<close>, in \<^verbatim>\<open>disk_poll\<close>, at the start and at the end of \<^verbatim>\<open>_sync\<close>),
  the disk probe's answer, the metadata collector's answer or exception, the server's
  answer to a transmitted batch, and the picks of \<^verbatim>\<open>random.choice\<close>.
\<close>

record env =
  time_poll :: real
  time_disk_poll :: real
  time_sync_start :: real
  time_sync_end :: real
  disk_usage :: disk_space
  get_meta :: "exn + (string \<times> pyval) list"
  server :: "call list \<Rightarrow> response"
  random_choice :: "nat \<Rightarrow> nat"

definition log_msg :: "level \<Rightarrow> string \<Rightarrow> pyval list \<Rightarrow> client \<Rightarrow> client" where
  "log_msg lv fmt as st = st\<lparr>agent_log := agent_log st @ [(lv, fmt, as)]\<rparr>"

subsection \<open>Batch operations\<close>

text \<open>
  Modelled from the spec: the module \<^verbatim>\<open>jsonrpc\<close> (the classes \<^verbatim>\<open>JSONRPC\<close> and
  \<^verbatim>\<open>Batch\<close>) is not among the sources, so the batch follows section 4.1 of the
  specification. A call is appended under its result name, and a name already present
  is refused; \<open>abandon\<close> marks the batch; on normal exit of the scope the batch is
  transmitted as one request unless it was abandoned, and every slot receives a result
  or a fault (all of them the transport fault when the server cannot be reached);
  \<open>get_result\<close> fails on a batch that was not sent, on an unknown name and on a slot
  that holds a fault; \<open>batch_check\<close> raises the first fault among the named slots.
\<close>

definition remote_batch :: "client \<Rightarrow> batch \<times> client" where
  "remote_batch st =
     (\<lparr>calls = [], abandoned = False, sent = False, results = []\<rparr>,
      st\<lparr>batches_opened := Suc (batches_opened st)\<rparr>)"

definition call_with_id ::
  "string \<Rightarrow> string \<Rightarrow> (string \<times> pyval) list \<Rightarrow> batch \<Rightarrow> exn + batch" where
  "call_with_id name meth kwargs b =
     (if name \<in> set (map result_name (calls b)) then Inl (DuplicateNameError name)
      else Inr (b\<lparr>calls := calls b @
                   [\<lparr>result_name = name, rpc_method = meth, args = kwargs\<rparr>]\<rparr>))"

definition abandon :: "batch \<Rightarrow> batch" where
  "abandon b = b\<lparr>abandoned := True\<rparr>"

definition fill_slot :: "response \<Rightarrow> call \<Rightarrow> string \<times> slot" where
  "fill_slot r c =
     (result_name c,
      (case r of
         Unreachable \<Rightarrow> TransportFault
       | Replies f \<Rightarrow>
           (case f c of
              Ok v \<Rightarrow> Result v
            | Err code msg \<Rightarrow> Fault (rpc_method c) code msg)))"

definition batch_exit :: "env \<Rightarrow> batch \<Rightarrow> client \<Rightarrow> batch \<times> client" where
  "batch_exit e b st =
     (if abandoned b then (b, st)
      else (b\<lparr>sent := True, results := map (fill_slot (server e (calls b))) (calls b)\<rparr>,
            st\<lparr>sent_batches := sent_batches st @ [calls b]\<rparr>))"

definition get_result :: "string \<Rightarrow> batch \<Rightarrow> exn + pyval" where
  "get_result name b =
     (if \<not> sent b then Inl NotSentError
      else (case map_of (results b) name of
              None \<Rightarrow> Inl (KeyError name)
            | Some (Result v) \<Rightarrow> Inr v
            | Some (Fault m code msg) \<Rightarrow> Inl (JSONRPCError m code msg)
            | Some TransportFault \<Rightarrow> Inl ServerUnreachableError))"

fun batch_check :: "string list \<Rightarrow> batch \<Rightarrow> exn + unit" where
  "batch_check [] b = Inr ()"
| "batch_check (n # ns) b =
     (case get_result n b of Inl e \<Rightarrow> Inl e | Inr v \<Rightarrow> batch_check ns b)"

text \<open>Sequencing of steps that may raise: the first exception ends the sequence.\<close>

definition and_then :: "exn + 'a \<Rightarrow> ('a \<Rightarrow> exn + 'b) \<Rightarrow> exn + 'b" where
  "and_then r f = (case r of Inl e \<Rightarrow> Inl e | Inr x \<Rightarrow> f x)"

subsection \<open>Construction\<close>

text \<open>
  Modelled from the spec: the modules \<^verbatim>\<open>settings\<close>, \<^verbatim>\<open>tools\<close> and \<^verbatim>\<open>constants\<close>
  are not among the sources. Following section 6, reading the configuration either
  raises or gives the settings, each absent key answered by the default that \<^verbatim>\<open>_init\<close>
  passes; \<open>conf_serial\<close> and \<open>conf_auth\<close> are the values after \<^verbatim>\<open>tools.resolve_value\<close>.
\<close>

record conf =
  conf_server_url :: "string option"
  conf_serial :: "string option"
  conf_auth :: "string option"
  conf_poll :: "real option"
  conf_disk_poll :: "int option"

record init_env =
  settings_read :: "exn + conf"
  init_time :: real
  SERVER_URL :: string

definition get_default :: "'a option \<Rightarrow> 'a \<Rightarrow> 'a" where
  "get_default v d = (case v of None \<Rightarrow> d | Some x \<Rightarrow> x)"

text \<open>
  \<^verbatim>\<open>__init__\<close> followed by \<^verbatim>\<open>_init\<close>: the flag \<^verbatim>\<open>_sent_meta\<close> starts false and the next
  disk poll is due at the time of construction. An exception while reading the
  configuration is raised again after it is logged; the informational records of
  \<^verbatim>\<open>_init\<close> (version, uname, api, serial, poll) are left out of the log.
\<close>

definition Client_init :: "init_env \<Rightarrow> string option \<Rightarrow> exn + client" where
  "Client_init ie url =
     (case settings_read ie of
        Inl e \<Rightarrow> Inl e
      | Inr c \<Rightarrow>
          Inr \<lparr>rpc_url = (case url of None \<Rightarrow> get_default (conf_server_url c) (SERVER_URL ie)
                                     | Some u \<Rightarrow> u),
               serial = conf_serial c,
               auth_token = conf_auth c,
               poll_rate_seconds = get_default (conf_poll c) 60,
               disk_poll_rate_seconds = get_default (conf_disk_poll c) (60 * 60),
               next_disk_poll_time = init_time ie,
               p_sent_meta = False,
               agent_log = [],
               sent_batches = [],
               batches_opened = 0,
               close_calls = 0\<rparr>)"

subsection \<open>The disk poll\<close>

definition check_auth_args :: "client \<Rightarrow> (string \<times> pyval) list" where
  "check_auth_args st =
     [(''device_class'', PyStr ''tuxtunnel''),
      (''serial'', opt_str (serial st)),
      (''auth_token'', opt_str (auth_token st))]"

definition disk_poll :: "env \<Rightarrow> client \<Rightarrow> unit outcome \<times> client" where
  "disk_poll e st =
     (let now = time_disk_poll e in
      if now \<ge> next_disk_poll_time st then
        (let st1 = st\<lparr>next_disk_poll_time := now + of_int (disk_poll_rate_seconds st)\<rparr>;
             disk_space = disk_usage e;
             (b0, st2) = remote_batch st1
         in (case and_then
                 (call_with_id ''authenticate_result'' ''device.check_auth''
                    (check_auth_args st2) b0)
                 (call_with_id ''set_disk_space_result'' ''device.set_disk_space''
                    [(''disk_capacity'', PyInt (total disk_space)),
                     (''disk_used'', PyInt (used disk_space))]) of
               Inl x \<Rightarrow> (Raised x, st2)
             | Inr b2 \<Rightarrow> (let (b3, st3) = batch_exit e b2 st2 in (Return (), st3))))
      else (Return (), st))"

subsection \<open>Attributes of the instance\<close>

text \<open>
  The attributes that \<^verbatim>\<open>__init__\<close> and \<^verbatim>\<open>_init\<close> assign, and the names the class
  defines. Reading any other attribute of \<^verbatim>\<open>self\<close> raises \<^verbatim>\<open>AttributeError\<close>: the
  class derives from \<^verbatim>\<open>object\<close> and defines no \<^verbatim>\<open>__getattr__\<close>. The names that every
  object has (\<^verbatim>\<open>__class__\<close>, \<^verbatim>\<open>__dict__\<close> and the like) are left out: the code reads none.
\<close>

definition instance_dict :: "client \<Rightarrow> (string \<times> pyval) list" where
  "instance_dict st =
     [(''conf_path'', PyObj ''conf_path''),
      (''rpc_url'', PyStr (rpc_url st)),
      (''_sync_lock'', PyObj ''Lock''),
      (''_sent_meta'', PyBool (p_sent_meta st)),
      (''exit_event'', PyObj ''Event''),
      (''conf'', PyObj ''conf''),
      (''remote'', PyObj ''JSONRPC''),
      (''serial'', opt_str (serial st)),
      (''auth_token'', opt_str (auth_token st)),
      (''poll_rate_seconds'', PyFloat (poll_rate_seconds st)),
      (''disk_poll_rate_seconds'', PyInt (disk_poll_rate_seconds st)),
      (''next_disk_poll_time'', PyFloat (next_disk_poll_time st)),
      (''m2m'', PyObj ''M2MManager''),
      (''port_forward'', PyObj ''PortForwardManager'')]"

definition class_dict :: "(string \<times> pyval) list" where
  "class_dict =
     map (\<lambda>n. (n, PyObj ''method''))
       [''__init__'', ''_init'', ''run_forever'', ''disk_poll'', ''poll'', ''close'',
        ''make_sync_id'', ''sync'', ''_sync'', ''_sync_meta'', ''_check_meta'',
        ''set_m2m_identity'']"

definition getattr_self :: "client \<Rightarrow> string \<Rightarrow> exn + pyval" where
  "getattr_self st name =
     (case map_of (instance_dict st @ class_dict) name of
        None \<Rightarrow> Inl (AttributeError name)
      | Some v \<Rightarrow> Inr v)"

subsection \<open>The sync cycle\<close>

text \<open>Twelve picks of \<^verbatim>\<open>random.choice\<close> from the lower-case alphabet.\<close>

definition make_sync_id :: "env \<Rightarrow> string" where
  "make_sync_id e =
     map (\<lambda>i. ''abcdefghijklmnopqrstuvwxyz'' ! (random_choice e i mod 26)) [0..<12]"

definition meta_item :: "(string \<times> pyval) list \<Rightarrow> string \<Rightarrow> exn + pyval" where
  "meta_item meta k = (case map_of meta k of None \<Rightarrow> Inl (KeyError k) | Some v \<Rightarrow> Inr v)"

text \<open>The \<^verbatim>\<open>else\<close> branch of \<^verbatim>\<open>_sync_meta\<close>: four calls, each after reading its item.\<close>

definition queue_meta :: "(string \<times> pyval) list \<Rightarrow> batch \<Rightarrow> exn + batch" where
  "queue_meta meta b =
     and_then (meta_item meta ''agent_version'') (\<lambda>v1.
     and_then (call_with_id ''set_agent_version_result'' ''device.set_agent_version''
                 [(''agent_version'', v1)] b) (\<lambda>b1.
     and_then (meta_item meta ''machine_type'') (\<lambda>v2.
     and_then (call_with_id ''set_machine_type_result'' ''device.set_machine_type''
                 [(''machine_type'', py_or v2 (PyStr ''other''))] b1) (\<lambda>b2.
     and_then (meta_item meta ''os_version'') (\<lambda>v3.
     and_then (call_with_id ''set_os_version_result'' ''device.set_os_version''
                 [(''os_version'', v3)] b2) (\<lambda>b3.
     and_then (meta_item meta ''uname'') (\<lambda>v4.
     call_with_id ''set_uname_result'' ''device.set_uname'' [(''uname'', v4)] b3)))))))"

text \<open>
  \<^verbatim>\<open>_sync_meta\<close> returns \<^verbatim>\<open>False\<close> when the metadata was sent before. Its other two
  paths end without a \<^verbatim>\<open>return\<close> statement, so they return \<^verbatim>\<open>None\<close>: the bare
  \<^verbatim>\<open>except\<close> after a failed collection (which logs with \<^verbatim>\<open>log.exception\<close>, at error
  severity), and the \<^verbatim>\<open>else\<close> branch after queuing. An exception of the \<^verbatim>\<open>else\<close>
  branch is not caught there, and the batch it leaves behind is not returned.
\<close>

definition p_sync_meta :: "env \<Rightarrow> batch \<Rightarrow> client \<Rightarrow> (exn + pyval \<times> batch) \<times> client" where
  "p_sync_meta e b st =
     (if p_sent_meta st then (Inr (PyBool False, b), st)
      else (case get_meta e of
              Inl x \<Rightarrow> (Inr (PyNone, b), log_msg ERROR ''error getting meta'' [] st)
            | Inr meta \<Rightarrow>
                (case queue_meta meta b of
                   Inl x \<Rightarrow> (Inl x, st)
                 | Inr b' \<Rightarrow> (Inr (PyNone, b'), st))))"

definition meta_result_names :: "string list" where
  "meta_result_names =
     [''set_agent_version_result'', ''set_machine_type_result'',
      ''set_os_version_result'', ''set_uname_result'']"

text \<open>
  \<^verbatim>\<open>_check_meta\<close>: the handler of a failed check reads \<^verbatim>\<open>self.log\<close> before it can
  log the warning.
\<close>

definition p_check_meta :: "batch \<Rightarrow> client \<Rightarrow> unit outcome \<times> client" where
  "p_check_meta b st =
     (if p_sent_meta st then (Return (), st)
      else (case batch_check meta_result_names b of
              Inl x \<Rightarrow>
                (if is_Exception x then
                   (case getattr_self st ''log'' of
                      Inl a \<Rightarrow> (Raised a, st)
                    | Inr l \<Rightarrow>
                        (Return (),
                         log_msg WARNING ''failed to set device meta (%s)'' [PyExn x] st))
                 else (Raised x, st))
            | Inr u \<Rightarrow> (Return (), st\<lparr>p_sent_meta := True\<rparr>)))"

text \<open>
  The \<^verbatim>\<open>with\<close> block of \<^verbatim>\<open>_sync\<close> up to and including the exit of its scope: the
  batch as it leaves the scope, or the exception that left it (then nothing is sent).
\<close>

definition sync_scope :: "env \<Rightarrow> string \<Rightarrow> client \<Rightarrow> (exn + batch) \<times> client" where
  "sync_scope e sync_id st =
     (let (b0, st1) = remote_batch st in
      case call_with_id ''authenticate_result'' ''device.check_auth''
             (check_auth_args st1 @ [(''sync_id'', PyStr sync_id)]) b0 of
        Inl x \<Rightarrow> (Inl x, st1)
      | Inr b1 \<Rightarrow>
          (case p_sync_meta e b1 st1 of
             (Inl x, st2) \<Rightarrow> (Inl x, st2)
           | (Inr (r, b2), st2) \<Rightarrow>
               (let b3 = (if \<not> truthy r then abandon b2 else b2);
                    (b4, st3) = batch_exit e b3 st2
                in (Inr b4, st3))))"

definition p_sync :: "env \<Rightarrow> client \<Rightarrow> unit outcome \<times> client" where
  "p_sync e st =
     (let start = time_sync_start e;
          sync_id = make_sync_id e;
          (r, st1) =
            (case sync_scope e sync_id st of
               (Inl x, st') \<Rightarrow> (Raised x, st')
             | (Inr b, st') \<Rightarrow>
                 (if sent b then
                    (case get_result ''authenticate_result'' b of
                       Inl x \<Rightarrow> (Raised x, st')
                     | Inr v \<Rightarrow> p_check_meta b st')
                  else (Return (), st')));
          ellapsed = time_sync_end e - start
      in (r, log_msg DEBUG ''sync complete %0.2fs'' [PyFloat ellapsed] st1))"

text \<open>
  \<^verbatim>\<open>sync\<close> is the \<^verbatim>\<open>try\<close> statement around the call of \<^verbatim>\<open>self._sync()\<close>: \<open>sync_with\<close>
  takes the body, so that it can be stated for whatever the body does. The lock is
  not modelled: one thread runs the client.
\<close>

definition sync_with ::
  "(client \<Rightarrow> unit outcome \<times> client) \<Rightarrow> client \<Rightarrow> unit outcome \<times> client" where
  "sync_with body st =
     (case body st of
        (Raised x, st') \<Rightarrow>
          (if is_Exception x then (Return (), log_msg ERROR ''sync failed %s'' [PyExn x] st')
           else (Raised x, st'))
      | (Return u, st') \<Rightarrow> (Return (), st'))"

definition sync :: "env \<Rightarrow> client \<Rightarrow> unit outcome \<times> client" where
  "sync e = sync_with (p_sync e)"

definition poll :: "env \<Rightarrow> client \<Rightarrow> unit outcome \<times> client" where
  "poll e st =
     (let t = time_poll e;
          st0 = log_msg DEBUG ''poll t=%.02fs'' [PyFloat t] st
      in (case disk_poll e st0 of
            (Raised x, st1) \<Rightarrow> (Raised x, st1)
          | (Return u, st1) \<Rightarrow> sync e st1))"

subsection \<open>The run loop\<close>

text \<open>
  \<^verbatim>\<open>close\<close> does nothing; the model counts its calls, as the spy of the test does.
\<close>

definition close :: "client \<Rightarrow> client" where
  "close st = st\<lparr>close_calls := Suc (close_calls st)\<rparr>"






definition poll_which_raises_keyboardint :: "env \<Rightarrow> client \<Rightarrow> unit outcome \<times> client" where
  "poll_which_raises_keyboardint e st = (Raised KeyboardInterrupt, st)"

subsection \<open>Identity announcement\<close>

text \<open>
  The body of the \<^verbatim>\<open>try\<close> statement of \<^verbatim>\<open>set_m2m_identity\<close>: the debug record, the
  batch of two calls, its transmission, and the two results.
\<close>

definition m2m_try :: "env \<Rightarrow> pyval \<Rightarrow> client \<Rightarrow> (exn + unit) \<times> client" where
  \<open>m2m_try e identity st =
     (let st0 = log_msg DEBUG ''notiying server (%s) of m2m identity (%s)''
                  [PyStr (rpc_url st), py_or identity (PyStr ''<None>'')] st;
          (b0, st1) = remote_batch st0
      in (case and_then
                (call_with_id ''authenticate_result'' ''device.check_auth''
                   (check_auth_args st1) b0)
                (call_with_id ''associate_result'' ''m2m.associate''
                   [(''identity'', py_or identity (PyStr []))]) of
            Inl x \<Rightarrow> (Inl x, st1)
          | Inr b2 \<Rightarrow>
              (let (b3, st2) = batch_exit e b2 st1
               in (and_then (get_result ''authenticate_result'' b3) (\<lambda>v1.
                   and_then (get_result ''associate_result'' b3) (\<lambda>v2. Inr ())), st2))))\<close>

definition set_m2m_identity :: "env \<Rightarrow> pyval \<Rightarrow> client \<Rightarrow> pyval outcome \<times> client" where
  \<open>set_m2m_identity e identity st =
     (if auth_token st = None then
        (case getattr_self st ''disable_sync'' of
           Inl a \<Rightarrow> (Raised a, st)
         | Inr d \<Rightarrow>
             (if \<not> truthy d then
                (case getattr_self st ''log'' of
                   Inl a \<Rightarrow> (Raised a, st)
                 | Inr l \<Rightarrow>
                     (Return PyNone,
                      log_msg DEBUG
                        ''skipping m2m identity notify because we don't have an auth token''
                        [] st))
              else (Return PyNone, st)))
      else
        (case m2m_try e identity st of
           (Inl x, st') \<Rightarrow>
             (case x of
                JSONRPCError m code msg \<Rightarrow>
                  (Return PyNone,
                   log_msg ERROR ''unable to associate m2m identity ("%s"=%s, "%s")''
                     [PyStr m, PyInt code, PyStr msg] st')
              | ServerUnreachableError \<Rightarrow>
                  (Return PyNone,
                   log_msg DEBUG ''set m2m identity failed, %s'' [PyExn x] st')
              | _ \<Rightarrow> (Return PyNone, log_msg ERROR ''unable to set m2m identity'' [] st'))
         | (Inr u, st') \<Rightarrow>
             (Return identity,
              log_msg DEBUG ''server received m2m identity %s'' [identity] st')))\<close>

subsection \<open>Concrete surroundings and clients\<close>

text \<open>
  A server that acknowledges every call, a collector that returns the four items, and
  the client that the constructor builds from a configuration with a serial and an
  auth token, at time 100.
\<close>

definition ok_server :: "call list \<Rightarrow> response" where
  "ok_server cs = Replies (\<lambda>c. Ok (PyBool True))"

definition example_meta :: "(string \<times> pyval) list" where
  "example_meta =
     [(''agent_version'', PyStr ''0.4.2''), (''machine_type'', PyNone),
      (''os_version'', PyStr ''Linux-4.9''), (''uname'', PyStr ''Linux pi 4.9 armv7l'')]"

definition example_env :: env where
  "example_env =
     \<lparr>time_poll = 100, time_disk_poll = 100, time_sync_start = 100, time_sync_end = 101,
      disk_usage = \<lparr>total = 1000, used = 400\<rparr>,
      get_meta = Inr example_meta,
      server = ok_server,
      random_choice = (\<lambda>i. i)\<rparr>"

definition example_init_env :: init_env where
  "example_init_env =
     \<lparr>settings_read =
        Inr \<lparr>conf_server_url = None, conf_serial = Some ''test-serial'',
             conf_auth = Some ''test-auth'', conf_poll = None, conf_disk_poll = None\<rparr>,
      init_time = 100,
      SERVER_URL = ''https://api.example.com''\<rparr>"

definition example_client :: client where
  "example_client =
     \<lparr>rpc_url = ''https://api.example.com'',
      serial = Some ''test-serial'',
      auth_token = Some ''test-auth'',
      poll_rate_seconds = 60,
      disk_poll_rate_seconds = 3600,
      next_disk_poll_time = 100,
      p_sent_meta = False,
      agent_log = [],
      sent_batches = [],
      batches_opened = 0,
      close_calls = 0\<rparr>"


text \<open>The same, with a fault in the slot of the third metadata call.\<close>

definition faulted_batch :: batch where
  "faulted_batch =
     \<lparr>calls = [], abandoned = False, sent = True,
      results =
        [(''authenticate_result'', Result (PyBool True)),
         (''set_agent_version_result'', Result (PyBool True)),
         (''set_machine_type_result'', Result (PyBool True)),
         (''set_os_version_result'', Fault ''device.set_os_version'' 3 ''denied''),
         (''set_uname_result'', Result (PyBool True))]\<rparr>"

text \<open>The two calls that \<^verbatim>\<open>set_m2m_identity\<close> queues.\<close>

definition auth_call :: "client \<Rightarrow> call" where
  "auth_call st =
     \<lparr>result_name = ''authenticate_result'', rpc_method = ''device.check_auth'',
      args = check_auth_args st\<rparr>"

definition associate_call :: "pyval \<Rightarrow> call" where
  "associate_call identity =
     \<lparr>result_name = ''associate_result'', rpc_method = ''m2m.associate'',
      args = [(''identity'', py_or identity (PyStr []))]\<rparr>"

text \<open>The call that reports the disk usage.\<close>

definition set_disk_space_call :: "disk_space \<Rightarrow> call" where
  "set_disk_space_call d =
     \<lparr>result_name = ''set_disk_space_result'', rpc_method = ''device.set_disk_space'',
      args = [(''disk_capacity'', PyInt (total d)), (''disk_used'', PyInt (used d))]\<rparr>"

text \<open>
  A client whose metadata was sent in an earlier cycle, a client without auth token, a
  collector that fails, a collector whose answer lacks three of the four items, a
  server that cannot be reached, and a server that rejects the call \<^verbatim>\<open>m2m.associate\<close>.
\<close>

definition synced_client :: client where
  "synced_client = example_client\<lparr>p_sent_meta := True\<rparr>"

definition tokenless_client :: client where
  "tokenless_client = example_client\<lparr>auth_token := None\<rparr>"

definition failing_meta_env :: env where
  "failing_meta_env = example_env\<lparr>get_meta := Inl (OtherError ''IOError'')\<rparr>"

definition partial_meta_env :: env where
  "partial_meta_env = example_env\<lparr>get_meta := Inr [(''agent_version'', PyStr ''0.4.2'')]\<rparr>"

definition unreachable_env :: env where
  "unreachable_env = example_env\<lparr>server := (\<lambda>cs. Unreachable)\<rparr>"

definition fault_env :: env where
  "fault_env =
     example_env\<lparr>server :=
       (\<lambda>cs. Replies (\<lambda>c. if rpc_method c = ''m2m.associate'' then Err 3 ''denied''
                           else Ok (PyBool True)))\<rparr>"

text \<open>A server that rejects every call.\<close>

definition rejecting_env :: env where
  "rejecting_env = example_env\<lparr>server := (\<lambda>cs. Replies (\<lambda>c. Err 1 ''bad token''))\<rparr>"

section \<open>Properties\<close>

subsection \<open>What a sync cycle leaves unchanged\<close>

lemma call_with_id_flags:
  "call_with_id n m k b = Inr b' \<Longrightarrow>
     sent b' = sent b \<and> abandoned b' = abandoned b \<and> results b' = results b"
  by (auto simp: call_with_id_def split: if_splits)

lemma queue_meta_flags:
  assumes "queue_meta meta b = Inr b'"
  shows "sent b' = sent b \<and> abandoned b' = abandoned b \<and> results b' = results b"
  using assms
  by (auto simp: queue_meta_def and_then_def split: sum.splits dest!: call_with_id_flags)

lemma p_sync_meta_result:
  assumes "p_sync_meta e b st = (r, st')"
  shows "sent_batches st' = sent_batches st \<and> batches_opened st' = batches_opened st
         \<and> p_sent_meta st' = p_sent_meta st \<and> close_calls st' = close_calls st
         \<and> next_disk_poll_time st' = next_disk_poll_time st
         \<and> (\<forall>v b'. r = Inr (v, b') \<longrightarrow>
               \<not> truthy v \<and> sent b' = sent b \<and> abandoned b' = abandoned b)"
  using assms
  by (auto simp: p_sync_meta_def log_msg_def split: if_splits sum.splits
      dest: queue_meta_flags)

lemma sync_scope_result:
  assumes "sync_scope e sid st = (r, st')"
  shows "sent_batches st' = sent_batches st \<and> batches_opened st' = Suc (batches_opened st)
         \<and> p_sent_meta st' = p_sent_meta st \<and> close_calls st' = close_calls st
         \<and> next_disk_poll_time st' = next_disk_poll_time st
         \<and> (\<forall>b. r = Inr b \<longrightarrow> abandoned b \<and> \<not> sent b)"
proof -
  obtain b0 st1 where rb: "remote_batch st = (b0, st1)" by (cases "remote_batch st")
  then have st1: "st1 = st\<lparr>batches_opened := Suc (batches_opened st)\<rparr>"
    and b0: "b0 = \<lparr>calls = [], abandoned = False, sent = False, results = []\<rparr>"
    by (auto simp: remote_batch_def)
  obtain b1 where c1: "call_with_id ''authenticate_result'' ''device.check_auth''
             (check_auth_args st1 @ [(''sync_id'', PyStr sid)]) b0 = Inr b1"
    by (simp add: call_with_id_def b0)
  from call_with_id_flags[OF c1] b0 have f1: "\<not> sent b1" "\<not> abandoned b1" by simp_all
  obtain r2 st2 where m: "p_sync_meta e b1 st1 = (r2, st2)" by (cases "p_sync_meta e b1 st1")
  note pm = p_sync_meta_result[OF m]
  show ?thesis
  proof (cases r2)
    case (Inl x)
    with assms rb c1 m have "r = Inl x" "st' = st2" by (auto simp: sync_scope_def)
    with pm st1 show ?thesis by simp
  next
    case (Inr vb)
    obtain v b2 where vb: "vb = (v, b2)" by (cases vb)
    with pm Inr f1 have f2: "\<not> truthy v" "\<not> sent b2" by auto
    with assms rb c1 m Inr vb have "r = Inr (abandon b2)" "st' = st2"
      by (auto simp: sync_scope_def batch_exit_def abandon_def)
    with pm st1 f2 show ?thesis by (simp add: abandon_def)
  qed
qed

lemma p_sync_result:
  "sent_batches (snd (p_sync e st)) = sent_batches st
   \<and> batches_opened (snd (p_sync e st)) = Suc (batches_opened st)
   \<and> p_sent_meta (snd (p_sync e st)) = p_sent_meta st
   \<and> close_calls (snd (p_sync e st)) = close_calls st
   \<and> next_disk_poll_time (snd (p_sync e st)) = next_disk_poll_time st"
proof -
  obtain r st' where s: "sync_scope e (make_sync_id e) st = (r, st')"
    by (cases "sync_scope e (make_sync_id e) st")
  note sr = sync_scope_result[OF s]
  show ?thesis
  proof (cases r)
    case (Inl x)
    with s sr show ?thesis by (simp add: p_sync_def Let_def log_msg_def)
  next
    case (Inr b)
    with sr have "\<not> sent b" by simp
    with s sr Inr show ?thesis by (simp add: p_sync_def Let_def log_msg_def)
  qed
qed

lemma sync_with_fields:
  "sent_batches (snd (sync_with body st)) = sent_batches (snd (body st))
   \<and> batches_opened (snd (sync_with body st)) = batches_opened (snd (body st))
   \<and> p_sent_meta (snd (sync_with body st)) = p_sent_meta (snd (body st))
   \<and> close_calls (snd (sync_with body st)) = close_calls (snd (body st))
   \<and> next_disk_poll_time (snd (sync_with body st)) = next_disk_poll_time (snd (body st))"
  by (cases "body st"; cases "fst (body st)")
     (auto simp: sync_with_def log_msg_def)

lemma sync_result:
  "sent_batches (snd (sync e st)) = sent_batches st
   \<and> batches_opened (snd (sync e st)) = Suc (batches_opened st)
   \<and> p_sent_meta (snd (sync e st)) = p_sent_meta st
   \<and> close_calls (snd (sync e st)) = close_calls st
   \<and> next_disk_poll_time (snd (sync e st)) = next_disk_poll_time st"
  unfolding sync_def using sync_with_fields[of "p_sync e" st] p_sync_result[of e st] by simp

subsection \<open>The disk poll\<close>

lemma disk_poll_due:
  assumes "next_disk_poll_time st \<le> time_disk_poll e"
  shows "disk_poll e st =
     (Return (),
      st\<lparr>next_disk_poll_time := time_disk_poll e + of_int (disk_poll_rate_seconds st),
         batches_opened := Suc (batches_opened st),
         sent_batches := sent_batches st @ [[auth_call st, set_disk_space_call (disk_usage e)]]\<rparr>)"
  using assms
  by (simp add: disk_poll_def Let_def remote_batch_def call_with_id_def and_then_def
      batch_exit_def check_auth_args_def auth_call_def set_disk_space_call_def)

lemma disk_poll_not_due:
  assumes "\<not> next_disk_poll_time st \<le> time_disk_poll e"
  shows "disk_poll e st = (Return (), st)"
  using assms by (simp add: disk_poll_def Let_def)

lemma Client_init_fields:
  "Client_init ie url = Inr st0 \<Longrightarrow>
     next_disk_poll_time st0 = init_time ie \<and> \<not> p_sent_meta st0"
  by (auto simp: Client_init_def split: sum.splits)

lemma Client_init_example: "Client_init example_init_env None = Inr example_client"
  by (simp add: Client_init_def example_init_env_def example_client_def get_default_def)

text \<open>
  Claim C4. In every invocation of the disk poll a disk-usage report is transmitted if and
  only if the current time is at least the stored next-due time; when it is, the
  next-due time becomes the current time plus the configured interval (whatever the
  old next-due time was) and the transmitted batch is the authenticate call with the
  call reporting total and used bytes; when it is not, nothing changes; and the client
  that the constructor returns has its next-due time equal to the time of construction.
\<close>

theorem disk_poll_schedule:
  "(sent_batches (snd (disk_poll e st)) \<noteq> sent_batches st
      \<longleftrightarrow> next_disk_poll_time st \<le> time_disk_poll e)
   \<and> (next_disk_poll_time st \<le> time_disk_poll e \<longrightarrow>
        next_disk_poll_time (snd (disk_poll e st)) =
          time_disk_poll e + of_int (disk_poll_rate_seconds st)
        \<and> sent_batches (snd (disk_poll e st)) =
            sent_batches st @ [[auth_call st, set_disk_space_call (disk_usage e)]])
   \<and> (\<not> next_disk_poll_time st \<le> time_disk_poll e \<longrightarrow> disk_poll e st = (Return (), st))
   \<and> (Client_init ie url = Inr st0 \<longrightarrow> next_disk_poll_time st0 = init_time ie)"
proof (cases "next_disk_poll_time st \<le> time_disk_poll e")
  case True
  with Client_init_fields[of ie url st0] show ?thesis by (simp add: disk_poll_due)
next
  case False
  with Client_init_fields[of ie url st0] show ?thesis by (simp add: disk_poll_not_due)
qed

theorem disk_poll_schedule_witness:
  "next_disk_poll_time example_client \<le> time_disk_poll example_env
   \<and> sent_batches (snd (disk_poll example_env example_client)) \<noteq> sent_batches example_client
   \<and> next_disk_poll_time (snd (disk_poll example_env example_client)) = 3700
   \<and> \<not> next_disk_poll_time (example_client\<lparr>next_disk_poll_time := 3700\<rparr>)
          \<le> time_disk_poll (example_env\<lparr>time_disk_poll := 160\<rparr>)
   \<and> disk_poll (example_env\<lparr>time_disk_poll := 160\<rparr>)
        (example_client\<lparr>next_disk_poll_time := 3700\<rparr>)
      = (Return (), example_client\<lparr>next_disk_poll_time := 3700\<rparr>)
   \<and> Client_init example_init_env None = Inr example_client
   \<and> next_disk_poll_time example_client = init_time example_init_env"
proof -
  have due: "next_disk_poll_time example_client \<le> time_disk_poll example_env"
    by (simp add: example_client_def example_env_def)
  have late: "\<not> next_disk_poll_time (example_client\<lparr>next_disk_poll_time := 3700\<rparr>)
          \<le> time_disk_poll (example_env\<lparr>time_disk_poll := 160\<rparr>)"
    by simp
  have rate: "time_disk_poll example_env
                + of_int (disk_poll_rate_seconds example_client) = (3700::real)"
    by (simp add: example_client_def example_env_def)
  from disk_poll_schedule[of example_env example_client example_init_env None example_client]
       disk_poll_schedule[of "example_env\<lparr>time_disk_poll := 160\<rparr>"
          "example_client\<lparr>next_disk_poll_time := 3700\<rparr>" example_init_env None example_client]
       due late rate Client_init_example
  show ?thesis by simp
qed

subsection \<open>The batch of a sync cycle\<close>

lemmas batch_defs = remote_batch_def call_with_id_def and_then_def batch_exit_def abandon_def
  check_auth_args_def opt_str_def

lemma make_sync_id_example: "make_sync_id example_env = ''abcdefghijkl''"
  by (simp add: make_sync_id_def example_env_def upt_rec[of _ "numeral _"] upt_rec[of 0])

text \<open>
  Claim C1, as stated, fails. With the metadata already sent, \<^verbatim>\<open>_sync_meta\<close> returns
  \<^verbatim>\<open>False\<close> and \<^verbatim>\<open>_sync\<close> abandons the batch: the batch that leaves the scope holds the
  authenticate call, is abandoned and not sent, and the cycle transmits nothing.
\<close>

theorem sync_abandons_when_already_sent_counterexample:
  "p_sent_meta synced_client
   \<and> fst (sync_scope example_env (make_sync_id example_env) synced_client) =
       Inr \<lparr>calls = [\<lparr>result_name = ''authenticate_result'', rpc_method = ''device.check_auth'',
                      args = [(''device_class'', PyStr ''tuxtunnel''),
                              (''serial'', PyStr ''test-serial''),
                              (''auth_token'', PyStr ''test-auth''),
                              (''sync_id'', PyStr ''abcdefghijkl'')]\<rparr>],
            abandoned = True, sent = False, results = []\<rparr>
   \<and> sent_batches (snd (sync example_env synced_client)) = []"
proof -
  have "sent_batches synced_client = []"
    by (simp add: synced_client_def example_client_def)
  then have "sent_batches (snd (sync example_env synced_client)) = []"
    by (simp add: sync_result)
  then show ?thesis
    by (simp add: make_sync_id_example)
       (simp add: sync_scope_def p_sync_meta_def batch_defs synced_client_def
         example_client_def example_env_def Let_def)
qed

text \<open>
  Claim C1, amended. In a sync cycle the batch is abandoned, and so not sent on exit of
  the scope, when the metadata was already sent in a previous cycle and when the
  collection of the metadata fails: the batch then holds the authenticate call alone
  and nothing is transmitted.
\<close>

theorem sync_abandons_without_metadata:
  assumes "p_sent_meta st \<or> isl (get_meta e)"
  shows "\<exists>b st'. sync_scope e sid st = (Inr b, st') \<and> abandoned b \<and> \<not> sent b
           \<and> map result_name (calls b) = [''authenticate_result'']
           \<and> sent_batches st' = sent_batches st"
  using assms
  by (auto simp: sync_scope_def p_sync_meta_def batch_defs log_msg_def Let_def isl_def)

theorem sync_abandons_without_metadata_witness:
  "p_sent_meta synced_client
   \<and> (\<exists>b st'. sync_scope example_env ''abcdefghijkl'' synced_client = (Inr b, st')
         \<and> abandoned b \<and> \<not> sent b
         \<and> map result_name (calls b) = [''authenticate_result'']
         \<and> sent_batches st' = sent_batches synced_client)
   \<and> \<not> p_sent_meta example_client \<and> isl (get_meta failing_meta_env)
   \<and> (\<exists>b st'. sync_scope failing_meta_env ''abcdefghijkl'' example_client = (Inr b, st')
         \<and> abandoned b \<and> \<not> sent b
         \<and> map result_name (calls b) = [''authenticate_result'']
         \<and> sent_batches st' = sent_batches example_client)"
proof -
  have a: "p_sent_meta synced_client" by (simp add: synced_client_def)
  have b: "isl (get_meta failing_meta_env)" "\<not> p_sent_meta example_client"
    by (simp_all add: failing_meta_env_def example_client_def)
  from sync_abandons_without_metadata[of synced_client example_env "''abcdefghijkl''"]
       sync_abandons_without_metadata[of example_client failing_meta_env "''abcdefghijkl''"]
       a b
  show ?thesis by simp
qed

lemma sync_scope_queues_metadata:
  assumes "\<not> p_sent_meta st" and "get_meta e = Inr example_meta"
  shows "map_sum id (\<lambda>b. (map result_name (calls b), abandoned b, sent b))
           (fst (sync_scope e sid st)) =
         Inr ([''authenticate_result'', ''set_agent_version_result'',
               ''set_machine_type_result'', ''set_os_version_result'',
               ''set_uname_result''], True, False)"
  using assms
  by (simp add: sync_scope_def p_sync_meta_def queue_meta_def meta_item_def example_meta_def
      batch_defs Let_def)

text \<open>
  Claim C2, evaluated on a fresh client under a collector that succeeds and a server that
  acknowledges every call. The first cycle queues the four metadata calls after the
  authenticate call and abandons the batch; nothing is transmitted and the flag stays
  false; the second cycle queues the same five calls and abandons them again. The
  metadata calls reach no sent batch.
\<close>

theorem metadata_never_transmitted_example:
  "map_sum id (\<lambda>b. (map result_name (calls b), abandoned b, sent b))
     (fst (sync_scope example_env (make_sync_id example_env) example_client)) =
     Inr ([''authenticate_result'', ''set_agent_version_result'',
           ''set_machine_type_result'', ''set_os_version_result'',
           ''set_uname_result''], True, False)
   \<and> sent_batches (snd (sync example_env example_client)) = []
   \<and> \<not> p_sent_meta (snd (sync example_env example_client))
   \<and> map_sum id (\<lambda>b. (map result_name (calls b), abandoned b, sent b))
       (fst (sync_scope example_env (make_sync_id example_env)
              (snd (sync example_env example_client)))) =
       Inr ([''authenticate_result'', ''set_agent_version_result'',
             ''set_machine_type_result'', ''set_os_version_result'',
             ''set_uname_result''], True, False)
   \<and> sent_batches (snd (sync example_env (snd (sync example_env example_client)))) = []
   \<and> \<not> p_sent_meta (snd (sync example_env (snd (sync example_env example_client))))"
proof -
  have m: "get_meta example_env = Inr example_meta" by (simp add: example_env_def)
  have n0: "\<not> p_sent_meta example_client" "sent_batches example_client = []"
    by (simp_all add: example_client_def)
  have n1: "\<not> p_sent_meta (snd (sync example_env example_client))"
     "sent_batches (snd (sync example_env example_client)) = []"
    using n0 by (simp_all add: sync_result)
  have n2: "\<not> p_sent_meta (snd (sync example_env (snd (sync example_env example_client))))"
     "sent_batches (snd (sync example_env (snd (sync example_env example_client)))) = []"
    using n1 by (simp_all add: sync_result)
  from sync_scope_queues_metadata[OF n0(1) m] sync_scope_queues_metadata[OF n1(1) m] n1 n2
  show ?thesis by simp
qed

subsection \<open>The metadata-sent flag\<close>


lemma get_result_Inl: "get_result n b = Inl x \<Longrightarrow> is_Exception x"
  by (auto simp: get_result_def split: if_splits option.splits slot.splits)

lemma batch_check_Inl: "batch_check ns b = Inl x \<Longrightarrow> is_Exception x"
  by (induction ns) (auto split: sum.splits dest: get_result_Inl)









lemma batch_check_faulted:
  "batch_check meta_result_names faulted_batch =
     Inl (JSONRPCError ''device.set_os_version'' 3 ''denied'')"
  by (simp add: meta_result_names_def faulted_batch_def get_result_def)


subsection \<open>The batches of one poll\<close>

text \<open>
  Claim C5, as stated, fails. When the disk report is due, one invocation of \<^verbatim>\<open>poll\<close>
  opens two batches: \<^verbatim>\<open>disk_poll\<close> opens one of its own and transmits the report in
  it, and the sync cycle opens another.
\<close>

theorem poll_opens_two_batches_counterexample:
  "batches_opened example_client = 0
   \<and> batches_opened (snd (poll example_env example_client)) = 2
   \<and> sent_batches (snd (poll example_env example_client)) =
       [[auth_call example_client, set_disk_space_call \<lparr>total = 1000, used = 400\<rparr>]]"
proof -
  have due: "next_disk_poll_time
               (log_msg DEBUG ''poll t=%.02fs'' [PyFloat (time_poll example_env)] example_client)
        \<le> time_disk_poll example_env"
    by (simp add: example_client_def example_env_def log_msg_def)
  show ?thesis
    by (simp add: poll_def Let_def disk_poll_due[OF due] sync_result)
       (simp add: example_client_def example_env_def log_msg_def auth_call_def
         check_auth_args_def)
qed

text \<open>
  Claim C5, amended. One invocation of \<^verbatim>\<open>poll\<close> opens one batch for the sync cycle
  and, when the disk report is due, one more before it: \<^verbatim>\<open>disk_poll\<close> opens a batch
  of its own, holding an authenticate call and the \<^verbatim>\<open>set_disk_space\<close> call, and that
  batch is transmitted by itself. When the report is not due, \<^verbatim>\<open>poll\<close> opens exactly
  one batch.
\<close>

theorem poll_batches:
  "(next_disk_poll_time st \<le> time_disk_poll e \<longrightarrow>
      batches_opened (snd (poll e st)) = batches_opened st + 2
      \<and> sent_batches (snd (disk_poll e st)) =
          sent_batches st @ [[auth_call st, set_disk_space_call (disk_usage e)]])
   \<and> (\<not> next_disk_poll_time st \<le> time_disk_poll e \<longrightarrow>
      batches_opened (snd (poll e st)) = batches_opened st + 1)"
proof (cases "next_disk_poll_time st \<le> time_disk_poll e")
  case True
  then have due: "next_disk_poll_time
                    (log_msg DEBUG ''poll t=%.02fs'' [PyFloat (time_poll e)] st)
        \<le> time_disk_poll e"
    by (simp add: log_msg_def)
  from True show ?thesis
    by (simp add: poll_def Let_def disk_poll_due[OF due] disk_poll_due[OF True] sync_result)
       (simp add: log_msg_def)
next
  case False
  then have nd: "\<not> next_disk_poll_time
                     (log_msg DEBUG ''poll t=%.02fs'' [PyFloat (time_poll e)] st)
        \<le> time_disk_poll e"
    by (simp add: log_msg_def)
  from False show ?thesis
    by (simp add: poll_def Let_def disk_poll_not_due[OF nd] sync_result)
       (simp add: log_msg_def)
qed

theorem poll_batches_witness:
  "next_disk_poll_time example_client \<le> time_disk_poll example_env
   \<and> batches_opened (snd (poll example_env example_client)) = 2
   \<and> sent_batches (snd (disk_poll example_env example_client)) =
       [[auth_call example_client, set_disk_space_call (disk_usage example_env)]]
   \<and> \<not> next_disk_poll_time (example_client\<lparr>next_disk_poll_time := 3700\<rparr>)
          \<le> time_disk_poll example_env
   \<and> batches_opened (snd (poll example_env (example_client\<lparr>next_disk_poll_time := 3700\<rparr>))) = 1"
proof -
  have h: "next_disk_poll_time example_client \<le> time_disk_poll example_env"
    "\<not> next_disk_poll_time (example_client\<lparr>next_disk_poll_time := 3700\<rparr>)
          \<le> time_disk_poll example_env"
    "batches_opened example_client = 0" "sent_batches example_client = []"
    by (simp_all add: example_client_def example_env_def)
  from poll_batches[of example_client example_env]
       poll_batches[of "example_client\<lparr>next_disk_poll_time := 3700\<rparr>" example_env] h
  show ?thesis by simp
qed

subsection \<open>Exceptions at the boundary of the sync cycle\<close>

lemma getattr_self_log: "getattr_self st ''log'' = Inl (AttributeError ''log'')"
  by (simp add: getattr_self_def instance_dict_def class_dict_def)

lemma getattr_self_disable_sync:
  "getattr_self st ''disable_sync'' = Inl (AttributeError ''disable_sync'')"
  by (simp add: getattr_self_def instance_dict_def class_dict_def)

lemma p_sync_partial_meta:
  "fst (p_sync partial_meta_env example_client) = Raised (KeyError ''machine_type'')"
  by (simp add: p_sync_def sync_scope_def p_sync_meta_def queue_meta_def meta_item_def
      batch_defs partial_meta_env_def example_env_def example_client_def Let_def)

lemma call_with_id_Inl: "call_with_id n m k b = Inl x \<Longrightarrow> is_Exception x"
  by (auto simp: call_with_id_def split: if_splits)

lemma meta_item_Inl: "meta_item meta k = Inl x \<Longrightarrow> is_Exception x"
  by (auto simp: meta_item_def split: option.splits)

lemma queue_meta_Inl: "queue_meta meta b = Inl x \<Longrightarrow> is_Exception x"
  by (auto simp: queue_meta_def and_then_def split: sum.splits
      dest: call_with_id_Inl meta_item_Inl)

lemma p_check_meta_Raised: "fst (p_check_meta b st) = Raised x \<Longrightarrow> is_Exception x"
  by (auto simp: p_check_meta_def getattr_self_log split: if_splits sum.splits
      dest: batch_check_Inl)

lemma sync_scope_Inl: "fst (sync_scope e sid st) = Inl x \<Longrightarrow> is_Exception x"
  by (auto simp: sync_scope_def p_sync_meta_def remote_batch_def batch_exit_def Let_def
      split: sum.splits if_splits prod.splits
      dest: call_with_id_Inl queue_meta_Inl)

lemma p_sync_Raised:
  assumes "fst (p_sync e st) = Raised x"
  shows "is_Exception x"
proof -
  obtain r s where sc: "sync_scope e (make_sync_id e) st = (r, s)"
    by (cases "sync_scope e (make_sync_id e) st")
  show ?thesis
  proof (cases r)
    case (Inl y)
    with assms sc have "x = y" by (simp add: p_sync_def Let_def)
    with sync_scope_Inl[of e "make_sync_id e" st y] sc Inl show ?thesis by simp
  next
    case (Inr b)
    with sync_scope_result[OF sc] have "\<not> sent b" by simp
    with assms sc Inr show ?thesis by (simp add: p_sync_def Let_def)
  qed
qed

lemma sync_returns: "fst (sync e st) = Return ()"
proof (cases "p_sync e st")
  case (Pair r s)
  show ?thesis
  proof (cases r)
    case (Return u)
    with Pair show ?thesis by (simp add: sync_def sync_with_def)
  next
    case (Raised x)
    with Pair p_sync_Raised[of e st x] show ?thesis by (simp add: sync_def sync_with_def)
  qed
qed


text \<open>
  Claim C6. Whatever the body of the sync cycle does, an exception that derives from
  \<^verbatim>\<open>Exception\<close> and leaves the body is caught by \<^verbatim>\<open>sync\<close>, which logs it at error
  severity and returns normally; an exception that leaves \<^verbatim>\<open>sync\<close> is never of that
  kind. The same holds of \<^verbatim>\<open>sync\<close> with the body \<^verbatim>\<open>_sync\<close> of the client, and
  with that body \<^verbatim>\<open>sync\<close> always returns normally.
\<close>

theorem sync_catches_exceptions:
  "(fst (body st) = Raised x \<and> is_Exception x \<longrightarrow>
      sync_with body st =
        (Return (), log_msg ERROR ''sync failed %s'' [PyExn x] (snd (body st))))
   \<and> (fst (sync_with body st) = Raised x \<longrightarrow> \<not> is_Exception x)
   \<and> (fst (p_sync e st) = Raised x \<and> is_Exception x \<longrightarrow>
      sync e st = (Return (), log_msg ERROR ''sync failed %s'' [PyExn x] (snd (p_sync e st))))
   \<and> fst (sync e st) = Return ()"
proof -
  have a: "sync_with f s = (Return (), log_msg ERROR ''sync failed %s'' [PyExn x] (snd (f s)))"
    if "fst (f s) = Raised x" "is_Exception x" for f s
    using that by (cases "f s") (simp add: sync_with_def)
  have b: "\<not> is_Exception x" if "fst (sync_with body st) = Raised x"
  proof (cases "body st")
    case (Pair r s')
    with that show ?thesis
      by (cases r) (auto simp: sync_with_def split: if_splits)
  qed
  from a[of body st] a[of "p_sync e" st] b show ?thesis
    by (auto simp: sync_def[symmetric] sync_returns)
qed

theorem sync_catches_exceptions_witness:
  "fst (p_sync partial_meta_env example_client) = Raised (KeyError ''machine_type'')
   \<and> is_Exception (KeyError ''machine_type'')
   \<and> sync partial_meta_env example_client =
       (Return (), log_msg ERROR ''sync failed %s'' [PyExn (KeyError ''machine_type'')]
                     (snd (p_sync partial_meta_env example_client)))
   \<and> fst (sync_with (poll_which_raises_keyboardint example_env) example_client)
       = Raised KeyboardInterrupt
   \<and> \<not> is_Exception KeyboardInterrupt"
proof -
  have k: "fst (sync_with (poll_which_raises_keyboardint example_env) example_client)
       = Raised KeyboardInterrupt"
    by (simp add: sync_with_def poll_which_raises_keyboardint_def)
  from sync_catches_exceptions[of "p_sync partial_meta_env" example_client
         "KeyError ''machine_type''" partial_meta_env]
       sync_catches_exceptions[of "poll_which_raises_keyboardint example_env" example_client
         KeyboardInterrupt example_env]
       p_sync_partial_meta k
  show ?thesis by (simp add: sync_def)
qed

text \<open>
  Claim C10. When the flag is false and the check of the four metadata slots raises,
  \<^verbatim>\<open>_check_meta\<close> raises \<^verbatim>\<open>AttributeError\<close> for the attribute \<^verbatim>\<open>log\<close>, which the
  instance does not have: no warning is logged and the client is unchanged. The
  exception is one that the handler of \<^verbatim>\<open>sync\<close> catches and logs.
\<close>

theorem check_meta_fault_raises_AttributeError:
  assumes "\<not> p_sent_meta st" and "batch_check meta_result_names b = Inl x"
  shows "p_check_meta b st = (Raised (AttributeError ''log''), st)
         \<and> sync_with (p_check_meta b) st =
             (Return (), log_msg ERROR ''sync failed %s'' [PyExn (AttributeError ''log'')] st)"
proof -
  from assms(2) have "is_Exception x" by (rule batch_check_Inl)
  with assms have "p_check_meta b st = (Raised (AttributeError ''log''), st)"
    by (simp add: p_check_meta_def getattr_self_log)
  then show ?thesis by (simp add: sync_with_def)
qed

theorem check_meta_fault_raises_AttributeError_witness:
  "\<not> p_sent_meta example_client
   \<and> batch_check meta_result_names faulted_batch =
       Inl (JSONRPCError ''device.set_os_version'' 3 ''denied'')
   \<and> p_check_meta faulted_batch example_client =
       (Raised (AttributeError ''log''), example_client)
   \<and> sync_with (p_check_meta faulted_batch) example_client =
       (Return (),
        log_msg ERROR ''sync failed %s'' [PyExn (AttributeError ''log'')] example_client)"
proof -
  have h: "\<not> p_sent_meta example_client" by (simp add: example_client_def)
  from check_meta_fault_raises_AttributeError[OF h batch_check_faulted] h batch_check_faulted
  show ?thesis by simp
qed

subsection \<open>The run loop\<close>








subsection \<open>Identity announcement\<close>

lemma set_m2m_identity_no_token:
  assumes "auth_token st = None"
  shows "set_m2m_identity e i st = (Raised (AttributeError ''disable_sync''), st)"
  using assms by (simp add: set_m2m_identity_def getattr_self_disable_sync)

text \<open>
  Claim C8, evaluated on a client without auth token. \<^verbatim>\<open>set_m2m_identity\<close> opens no batch
  and transmits nothing, but it does not return \<^verbatim>\<open>None\<close>: reading the attribute
  \<^verbatim>\<open>disable_sync\<close>, which the instance does not have, raises \<^verbatim>\<open>AttributeError\<close>
  before the \<^verbatim>\<open>return\<close> statement is reached.
\<close>

theorem set_m2m_identity_without_token_example:
  "auth_token tokenless_client = None
   \<and> set_m2m_identity example_env (PyStr ''abc'') tokenless_client =
       (Raised (AttributeError ''disable_sync''), tokenless_client)
   \<and> batches_opened (snd (set_m2m_identity example_env (PyStr ''abc'') tokenless_client)) = 0
   \<and> sent_batches (snd (set_m2m_identity example_env (PyStr ''abc'') tokenless_client)) = []"
proof -
  have t: "auth_token tokenless_client = None" by (simp add: tokenless_client_def)
  show ?thesis
    by (simp add: set_m2m_identity_no_token[OF t] t)
       (simp add: tokenless_client_def example_client_def)
qed

lemma m2m_try_eval:
  "m2m_try e i st =
     ((case server e [auth_call st, associate_call i] of
         Unreachable \<Rightarrow> Inl ServerUnreachableError
       | Replies f \<Rightarrow>
           (case f (auth_call st) of
              Err c m \<Rightarrow> Inl (JSONRPCError ''device.check_auth'' c m)
            | Ok v \<Rightarrow>
                (case f (associate_call i) of
                   Err c m \<Rightarrow> Inl (JSONRPCError ''m2m.associate'' c m)
                 | Ok w \<Rightarrow> Inr ()))),
      st\<lparr>agent_log := agent_log st @
            [(DEBUG, ''notiying server (%s) of m2m identity (%s)'',
              [PyStr (rpc_url st), py_or i (PyStr ''<None>'')])],
         batches_opened := Suc (batches_opened st),
         sent_batches := sent_batches st @ [[auth_call st, associate_call i]]\<rparr>)"
  by (simp add: m2m_try_def Let_def remote_batch_def call_with_id_def and_then_def
      batch_exit_def log_msg_def auth_call_def associate_call_def check_auth_args_def
      get_result_def fill_slot_def
      split: response.splits reply.splits)

text \<open>
  Claim C9. With an auth token configured, \<^verbatim>\<open>set_m2m_identity\<close> never raises. When the
  server cannot be reached it returns \<^verbatim>\<open>None\<close> and its two log records are of debug
  severity; when the server rejects the authenticate call, or accepts it and rejects
  the associate call, it returns \<^verbatim>\<open>None\<close> and its last log record is of error
  severity and carries the method, the code and the message of the fault; when the
  server accepts both calls it returns the identity it was given.
\<close>

theorem set_m2m_identity_outcomes:
  assumes "auth_token st \<noteq> None"
  shows \<open>(\<exists>v st'. set_m2m_identity e i st = (Return v, st'))
    \<and> (server e [auth_call st, associate_call i] = Unreachable \<longrightarrow>
         fst (set_m2m_identity e i st) = Return PyNone
         \<and> agent_log (snd (set_m2m_identity e i st)) = agent_log st @
             [(DEBUG, ''notiying server (%s) of m2m identity (%s)'',
               [PyStr (rpc_url st), py_or i (PyStr ''<None>'')]),
              (DEBUG, ''set m2m identity failed, %s'', [PyExn ServerUnreachableError])])
    \<and> (server e [auth_call st, associate_call i] = Replies f \<and> f (auth_call st) = Err c m \<longrightarrow>
         fst (set_m2m_identity e i st) = Return PyNone
         \<and> last (agent_log (snd (set_m2m_identity e i st))) =
             (ERROR, ''unable to associate m2m identity ("%s"=%s, "%s")'',
              [PyStr ''device.check_auth'', PyInt c, PyStr m]))
    \<and> (server e [auth_call st, associate_call i] = Replies f \<and> f (auth_call st) = Ok v
         \<and> f (associate_call i) = Err c m \<longrightarrow>
         fst (set_m2m_identity e i st) = Return PyNone
         \<and> last (agent_log (snd (set_m2m_identity e i st))) =
             (ERROR, ''unable to associate m2m identity ("%s"=%s, "%s")'',
              [PyStr ''m2m.associate'', PyInt c, PyStr m]))
    \<and> (server e [auth_call st, associate_call i] = Replies f \<and> f (auth_call st) = Ok v
         \<and> f (associate_call i) = Ok w \<longrightarrow>
         fst (set_m2m_identity e i st) = Return i)\<close>
  using assms
  by (auto simp: set_m2m_identity_def m2m_try_eval log_msg_def
      split: response.splits reply.splits)

theorem set_m2m_identity_outcomes_witness:
  \<open>auth_token example_client \<noteq> None
   \<and> server unreachable_env [auth_call example_client, associate_call (PyStr ''abc'')]
       = Unreachable
   \<and> set_m2m_identity unreachable_env (PyStr ''abc'') example_client =
       (Return PyNone,
        example_client\<lparr>agent_log :=
            [(DEBUG, ''notiying server (%s) of m2m identity (%s)'',
              [PyStr ''https://api.example.com'', PyStr ''abc'']),
             (DEBUG, ''set m2m identity failed, %s'', [PyExn ServerUnreachableError])],
          batches_opened := 1,
          sent_batches := [[auth_call example_client, associate_call (PyStr ''abc'')]]\<rparr>)
   \<and> fst (set_m2m_identity rejecting_env (PyStr ''abc'') example_client) = Return PyNone
   \<and> last (agent_log (snd (set_m2m_identity rejecting_env (PyStr ''abc'') example_client))) =
       (ERROR, ''unable to associate m2m identity ("%s"=%s, "%s")'',
        [PyStr ''device.check_auth'', PyInt 1, PyStr ''bad token''])
   \<and> fst (set_m2m_identity fault_env (PyStr ''abc'') example_client) = Return PyNone
   \<and> last (agent_log (snd (set_m2m_identity fault_env (PyStr ''abc'') example_client))) =
       (ERROR, ''unable to associate m2m identity ("%s"=%s, "%s")'',
        [PyStr ''m2m.associate'', PyInt 3, PyStr ''denied''])
   \<and> fst (set_m2m_identity example_env (PyStr ''abc'') example_client) = Return (PyStr ''abc'')\<close>
proof -
  let ?cs = "[auth_call example_client, associate_call (PyStr ''abc'')]"
  let ?rej = "\<lambda>c::call. Err 1 ''bad token''"
  let ?flt = "\<lambda>c::call. if rpc_method c = ''m2m.associate'' then Err 3 ''denied''
                        else Ok (PyBool True)"
  let ?ok = "\<lambda>c::call. Ok (PyBool True)"
  have tok: "auth_token example_client \<noteq> None" by (simp add: example_client_def)
  have u: "server unreachable_env ?cs = Unreachable"
    by (simp add: unreachable_env_def)
  have r: "server rejecting_env ?cs = Replies ?rej" "?rej (auth_call example_client) = Err 1 ''bad token''"
    by (simp_all add: rejecting_env_def)
  have f: "server fault_env ?cs = Replies ?flt" "?flt (auth_call example_client) = Ok (PyBool True)"
    "?flt (associate_call (PyStr ''abc'')) = Err 3 ''denied''"
    by (simp_all add: fault_env_def auth_call_def associate_call_def)
  have k: "server example_env ?cs = Replies ?ok"
    by (simp add: example_env_def ok_server_def)
  have full: "set_m2m_identity unreachable_env (PyStr ''abc'') example_client =
       (Return PyNone,
        example_client\<lparr>agent_log :=
            [(DEBUG, ''notiying server (%s) of m2m identity (%s)'',
              [PyStr ''https://api.example.com'', PyStr ''abc'']),
             (DEBUG, ''set m2m identity failed, %s'', [PyExn ServerUnreachableError])],
          batches_opened := 1,
          sent_batches := [[auth_call example_client, associate_call (PyStr ''abc'')]]\<rparr>)"
    by (simp add: set_m2m_identity_def m2m_try_eval u log_msg_def py_or_def)
       (simp add: example_client_def)
  from set_m2m_identity_outcomes[OF tok, of unreachable_env "PyStr ''abc''"]
       set_m2m_identity_outcomes[OF tok, of rejecting_env "PyStr ''abc''" ?rej 1 "''bad token''"]
       set_m2m_identity_outcomes[OF tok, of fault_env "PyStr ''abc''" ?flt 3 "''denied''"
         "PyBool True"]
       set_m2m_identity_outcomes[OF tok, of example_env "PyStr ''abc''" ?ok _ _
         "PyBool True" "PyBool True"]
       tok u r f k full
  show ?thesis by simp
qed

end
